theory Spec2Isabelle
  imports Complex_Main
begin

section \<open>Data of the ISS tracker service\<close>

text \<open>
  The service (\<^verbatim>\<open>iss_tracker.py\<close>) keeps two module-level variables that the
  modelled routes read: \<^verbatim>\<open>all_data\<close>, the parsed document, which the routes only test for
  emptiness (\<^verbatim>\<open>if not all_data\<close>), and \<^verbatim>\<open>state_vector_data\<close>, what the document holds
  under \<^verbatim>\<open>stateVector\<close>. An entry carries its \<^verbatim>\<open>EPOCH\<close> string and six components; a
  component is represented by the number that \<^verbatim>\<open>float(i['X']['#text'])\<close> reads from its
  text. The numbers are real numbers: the rounding of Python's floats, the
  \<^verbatim>\<open>OverflowError\<close> of \<^verbatim>\<open>**\<close> and signed zeros are not represented, so a statement
  about computed numbers speaks for the code only where every intermediate value is exact
  in double precision.
\<close>

record state_vector =
  EPOCH :: string
  X :: real
  Y :: real
  Z :: real
  X_DOT :: real
  Y_DOT :: real
  Z_DOT :: real

text \<open>
  The parser \<^verbatim>\<open>xmltodict\<close> gives a list of entries only when the document has two or more
  \<^verbatim>\<open>stateVector\<close> elements; for a single element it gives that entry's dictionary
  itself. \<^verbatim>\<open>delete_all_data\<close> binds the variable to the empty dictionary. So the variable
  holds a list of entries, one entry's dictionary, or \<^verbatim>\<open>{}\<close>.
\<close>

datatype sv_data = Entry_list "state_vector list" | Entry_dict state_vector | Empty_dict

text \<open>
  Iterating over an entry's dictionary yields its keys; \<^verbatim>\<open>len\<close> counts them.
\<close>

definition entry_keys :: "string list" where
  "entry_keys = [''EPOCH'', ''X'', ''Y'', ''Z'', ''X_DOT'', ''Y_DOT'', ''Z_DOT'']"

fun data_len :: "sv_data \<Rightarrow> nat" where
  "data_len (Entry_list entries) = length entries"
| "data_len (Entry_dict d) = length entry_keys"
| "data_len Empty_dict = 0"

text \<open>\<open>all_data\<close> is \<open>True\<close> exactly when the Python dictionary is non-empty.\<close>

record store =
  all_data :: bool
  state_vector_data :: sv_data

text \<open>
  A route ends in one of three ways: it returns its normal dictionary (\<open>Ok\<close>), it returns
  one of its error strings (\<open>Msg\<close>), or an exception leaves the handler (\<open>Raised\<close>).
\<close>

datatype message =
    Data_deleted
  | Invalid_limit_400
  | Limit_negative
  | Invalid_offset_400
  | Offset_negative
  | Offset_out_of_range nat
  | Epoch_not_found
  | Epoch_not_found_speed
  | Invalid_Epoch
  | Invalid_Epoch_help

datatype exn =
  ValueError | IndexError | TypeError | KeyError | UnboundLocalError | GeocoderError | FetchError

datatype 'a response = Ok 'a | Msg message | Raised exn

record quantity =
  val :: real
  units :: string

record geodata =
  latitude :: real
  longitude :: real
  altitude :: quantity

text \<open>
  \<^verbatim>\<open>get_speed\<close> returns the speed as \<^verbatim>\<open>str(...)\<close> of the computed float; \<open>Str_of x\<close>
  stands for the text Python prints for \<open>x\<close>.
\<close>

datatype rendered = Str_of real

record speed_reading =
  speed_units :: string
  speed_value :: rendered

text \<open>The key \<^verbatim>\<open>"latitiude"\<close> is spelled as the source spells it.\<close>

record location =
  loc_latitiude :: real
  loc_longitude :: real
  loc_altitude :: quantity

type_synonym address = "(string \<times> string) list"

datatype geo = Address address | Over_water

text \<open>
  What \<^verbatim>\<open>geocoder.reverse\<close> can do: raise, return \<^verbatim>\<open>None\<close>, or return a location
  whose raw reply has an \<^verbatim>\<open>'address'\<close> entry or lacks it.
\<close>

datatype geo_reply = Geo_raises | No_location | Location "address option"

record location_data =
  ld_EPOCH :: string
  ld_location :: location
  ld_geo :: geo
  ld_speed :: speed_reading

record location_now =
  closest_epoch :: string
  seconds_from_now :: int
  now_location :: location
  now_geo :: geo
  now_speed :: speed_reading

section \<open>Python's \<^verbatim>\<open>int()\<close> on a string\<close>

text \<open>
  \<^verbatim>\<open>int(s)\<close> on an ASCII string skips the white space of the C locale (bytes 9 to 13 and
  32) on both sides, accepts one optional sign and then decimal digits, where single
  underscores may stand between digits, and refuses a text of more than 4300 digits (the
  default of \<^verbatim>\<open>sys.set_int_max_str_digits\<close>). \<open>None\<close> is \<^verbatim>\<open>ValueError\<close>. Strings are byte
  strings here, so digits and white space outside ASCII are not covered.
\<close>

definition is_space :: "char \<Rightarrow> bool" where
  "is_space c = (let n = (of_char c :: nat) in (9 \<le> n \<and> n \<le> 13) \<or> n = 32)"

definition is_digit :: "char \<Rightarrow> bool" where
  "is_digit c = (let n = (of_char c :: nat) in 48 \<le> n \<and> n \<le> 57)"

definition digit_val :: "char \<Rightarrow> int" where
  "digit_val c = int (of_char c) - 48"

definition strip :: "string \<Rightarrow> string" where
  "strip s = rev (dropWhile is_space (rev (dropWhile is_space s)))"

fun py_digits :: "bool \<Rightarrow> int \<Rightarrow> string \<Rightarrow> int option" where
  "py_digits prev acc [] = (if prev then Some acc else None)"
| "py_digits prev acc (c # cs) =
     (if is_digit c then py_digits True (acc * 10 + digit_val c) cs
      else if c = CHR ''_'' \<and> prev then py_digits False acc cs
      else None)"

definition max_str_digits :: nat where
  "max_str_digits = 4300"

definition py_int :: "string \<Rightarrow> int option" where
  "py_int s =
     (case strip s of
        [] \<Rightarrow> None
      | c # cs \<Rightarrow>
          if max_str_digits < length (filter is_digit (c # cs)) then None
          else if c = CHR ''+'' then py_digits False 0 cs
          else if c = CHR ''-'' then map_option uminus (py_digits False 0 cs)
          else py_digits False 0 (c # cs))"

text \<open>
  \<^verbatim>\<open>int(request.args.get(name, default))\<close>: the text of a query parameter, or the default
  when the parameter is absent.
\<close>

definition int_arg :: "int \<Rightarrow> string option \<Rightarrow> int option" where
  "int_arg dflt a = (case a of None \<Rightarrow> Some dflt | Some t \<Rightarrow> py_int t)"

section \<open>The coordinate transform\<close>

definition MEAN_EARTH_RADIUS :: real where
  "MEAN_EARTH_RADIUS = 6371"

text \<open>
  \<^verbatim>\<open>math.atan2(y, x)\<close>, the angle of the point \<open>(x, y)\<close> in \<open>(-pi, pi]\<close>, and
  \<^verbatim>\<open>math.degrees\<close>, over the reals. The results agree with the code's doubles where the
  computation is exact, as at the positions and times the theorems below evaluate.
\<close>

definition atan2 :: "real \<Rightarrow> real \<Rightarrow> real" where
  "atan2 y x =
     (if 0 < x then arctan (y / x)
      else if x < 0 then (if 0 \<le> y then arctan (y / x) + pi else arctan (y / x) - pi)
      else if 0 < y then pi / 2
      else if y < 0 then - (pi / 2)
      else 0)"

definition degrees :: "real \<Rightarrow> real" where
  "degrees a = a * 180 / pi"

text \<open>
  \<^verbatim>\<open>convert_j2k_to_geoposition\<close> receives whatever \<^verbatim>\<open>get_state_vector\<close> returned. On an
  error string the subscript \<^verbatim>\<open>state_vector_dict['X']\<close> raises inside the \<^verbatim>\<open>try\<close> and the
  function returns \<^verbatim>\<open>"Invalid Epoch"\<close>. The two \<^verbatim>\<open>int(...)\<close> calls on the slices
  \<^verbatim>\<open>epoch[9:11]\<close> and \<^verbatim>\<open>epoch[12:14]\<close> stand outside the \<^verbatim>\<open>try\<close>.
\<close>

definition convert_j2k_to_geoposition :: "state_vector response \<Rightarrow> geodata response" where
  "convert_j2k_to_geoposition state_vector_dict =
     (case state_vector_dict of
        Raised e \<Rightarrow> Raised e
      | Msg m \<Rightarrow> Msg Invalid_Epoch
      | Ok d \<Rightarrow>
          (let x = X d; y = Y d; z = Z d; epoch = EPOCH d in
           case py_int (take 2 (drop 9 epoch)) of
             None \<Rightarrow> Raised ValueError
           | Some hrs \<Rightarrow>
               (case py_int (take 2 (drop 12 epoch)) of
                  None \<Rightarrow> Raised ValueError
                | Some mins \<Rightarrow>
                    (let lat = degrees (atan2 z (sqrt (x\<^sup>2 + y\<^sup>2)));
                         lon = degrees (atan2 y x)
                               - ((real_of_int hrs - 12) + (real_of_int mins / 60)) * (360 / 24) + 24;
                         alt = sqrt (x\<^sup>2 + y\<^sup>2 + z\<^sup>2) - MEAN_EARTH_RADIUS
                     in Ok \<lparr>latitude = lat, longitude = lon,
                            altitude = \<lparr>val = alt, units = ''km''\<rparr>\<rparr>))))"

section \<open>The routes over the store\<close>

subsection \<open>\<^verbatim>\<open>/epochs\<close>\<close>

text \<open>
  The loop of \<^verbatim>\<open>get_list_of_epochs\<close>: the first \<open>offset\<close> entries are skipped by counting,
  and the loop is left when \<open>epoch_count\<close> reaches \<open>limit\<close>.
\<close>

fun epochs_loop ::
  "state_vector list \<Rightarrow> int \<Rightarrow> int \<Rightarrow> int \<Rightarrow> int \<Rightarrow> string list \<Rightarrow> string list" where
  "epochs_loop [] limit offset offset_count epoch_count list_of_epochs = list_of_epochs"
| "epochs_loop (item # rest) limit offset offset_count epoch_count list_of_epochs =
     (if offset_count < offset
      then epochs_loop rest limit offset (offset_count + 1) epoch_count list_of_epochs
      else if epoch_count = limit then list_of_epochs
      else epochs_loop rest limit offset offset_count (epoch_count + 1)
             (list_of_epochs @ [EPOCH item]))"

text \<open>
  The same loop when \<^verbatim>\<open>state_vector_data\<close> is one entry's dictionary: the items are its
  keys, and \<^verbatim>\<open>item['EPOCH']\<close> on a string raises \<^verbatim>\<open>TypeError\<close>, so nothing is ever
  appended.
\<close>

fun keys_loop :: "string list \<Rightarrow> int \<Rightarrow> int \<Rightarrow> int \<Rightarrow> int \<Rightarrow> string list response" where
  "keys_loop [] limit offset offset_count epoch_count = Ok []"
| "keys_loop (item # rest) limit offset offset_count epoch_count =
     (if offset_count < offset
      then keys_loop rest limit offset (offset_count + 1) epoch_count
      else if epoch_count = limit then Ok []
      else Raised TypeError)"

text \<open>
  The query arguments are the strings of \<^verbatim>\<open>request.args\<close>, \<open>None\<close> when the parameter is
  absent (then \<^verbatim>\<open>limit\<close> defaults to \<^verbatim>\<open>len(state_vector_data)\<close> and \<^verbatim>\<open>offset\<close> to 0).
\<close>

definition get_list_of_epochs ::
  "store \<Rightarrow> string option \<Rightarrow> string option \<Rightarrow> string list response" where
  "get_list_of_epochs s limit_arg offset_arg =
     (if \<not> all_data s then Msg Data_deleted
      else
        case int_arg (int (data_len (state_vector_data s))) limit_arg of
          None \<Rightarrow> Msg Invalid_limit_400
        | Some limit \<Rightarrow>
            if limit < 0 then Msg Limit_negative
            else
              case int_arg 0 offset_arg of
                None \<Rightarrow> Msg Invalid_offset_400
              | Some offset \<Rightarrow>
                  if offset < 0 then Msg Offset_negative
                  else if offset \<ge> int (data_len (state_vector_data s))
                  then Msg (Offset_out_of_range (data_len (state_vector_data s)))
                  else
                    (case state_vector_data s of
                       Entry_list entries \<Rightarrow> Ok (epochs_loop entries limit offset 0 0 [])
                     | Entry_dict d \<Rightarrow> keys_loop entry_keys limit offset 0 0
                     | Empty_dict \<Rightarrow> Ok []))"

subsection \<open>\<^verbatim>\<open>/epochs/<epoch>\<close> and \<^verbatim>\<open>/epochs/<epoch>/speed\<close>\<close>

fun state_vector_loop :: "state_vector list \<Rightarrow> string \<Rightarrow> state_vector response" where
  "state_vector_loop [] epoch = Msg Epoch_not_found"
| "state_vector_loop (i # rest) epoch =
     (if EPOCH i = epoch
      then Ok \<lparr>EPOCH = epoch, X = X i, Y = Y i, Z = Z i,
               X_DOT = X_DOT i, Y_DOT = Y_DOT i, Z_DOT = Z_DOT i\<rparr>
      else state_vector_loop rest epoch)"

text \<open>
  On one entry's dictionary the loop variable is the first key, a string, and
  \<^verbatim>\<open>i['EPOCH']\<close> raises \<^verbatim>\<open>TypeError\<close>; on \<^verbatim>\<open>{}\<close> the loop body never runs.
\<close>

definition get_state_vector :: "store \<Rightarrow> string \<Rightarrow> state_vector response" where
  "get_state_vector s epoch =
     (if \<not> all_data s then Msg Data_deleted
      else
        case state_vector_data s of
          Entry_list entries \<Rightarrow> state_vector_loop entries epoch
        | Entry_dict d \<Rightarrow> Raised TypeError
        | Empty_dict \<Rightarrow> Msg Epoch_not_found)"

fun speed_loop :: "state_vector list \<Rightarrow> string \<Rightarrow> speed_reading response" where
  "speed_loop [] epoch = Msg Epoch_not_found_speed"
| "speed_loop (i # rest) epoch =
     (if EPOCH i = epoch
      then Ok \<lparr>speed_units = ''km/s'',
               speed_value = Str_of (sqrt ((X_DOT i)\<^sup>2 + (Y_DOT i)\<^sup>2 + (Z_DOT i)\<^sup>2))\<rparr>
      else speed_loop rest epoch)"

definition get_speed :: "store \<Rightarrow> string \<Rightarrow> speed_reading response" where
  "get_speed s epoch =
     (if \<not> all_data s then Msg Data_deleted
      else
        case state_vector_data s of
          Entry_list entries \<Rightarrow> speed_loop entries epoch
        | Entry_dict d \<Rightarrow> Raised TypeError
        | Empty_dict \<Rightarrow> Msg Epoch_not_found_speed)"

subsection \<open>\<^verbatim>\<open>/delete-data\<close> and \<^verbatim>\<open>/post-data\<close>\<close>

text \<open>
  \<^verbatim>\<open>delete_all_data\<close> rebinds both variables to empty dictionaries.

  \<^verbatim>\<open>retrieve_data_again\<close> fetches and parses the feed and rebinds \<^verbatim>\<open>all_data\<close> first
  and \<^verbatim>\<open>state_vector_data\<close> second. What the network delivers is the argument: either
  the fetch or the parse raises (nothing is rebound), or a document arrives, given by the
  list of its \<^verbatim>\<open>stateVector\<close> elements. A parsed document is a non-empty dictionary. With
  no such element (the feed's \<^verbatim>\<open>data\<close> element then still holds its comment lines) the
  subscript \<^verbatim>\<open>['stateVector']\<close> raises \<^verbatim>\<open>KeyError\<close> after \<^verbatim>\<open>all_data\<close> has been
  rebound, and \<^verbatim>\<open>state_vector_data\<close> keeps its old value; with one element the variable
  gets that entry's dictionary; with more it gets the list. The result is the route's
  reply and the store it leaves.
\<close>

definition delete_all_data :: "store \<Rightarrow> store" where
  "delete_all_data s = \<lparr>all_data = False, state_vector_data = Empty_dict\<rparr>"

datatype fetched = Fetch_fails | Document "state_vector list"

definition retrieve_data_again :: "fetched \<Rightarrow> store \<Rightarrow> unit response \<times> store" where
  "retrieve_data_again f s =
     (case f of
        Fetch_fails \<Rightarrow> (Raised FetchError, s)
      | Document [] \<Rightarrow> (Raised KeyError, s\<lparr>all_data := True\<rparr>)
      | Document [d] \<Rightarrow> (Ok (), \<lparr>all_data = True, state_vector_data = Entry_dict d\<rparr>)
      | Document entries \<Rightarrow> (Ok (), \<lparr>all_data = True, state_vector_data = Entry_list entries\<rparr>))"

subsection \<open>\<^verbatim>\<open>/epochs/<epoch>/location\<close>\<close>

text \<open>
  The reverse geocoder is outside the service; \<open>reverse\<close> gives its reply for a latitude and
  a longitude. The reply is read only after \<^verbatim>\<open>get_speed\<close> has run, and the result
  dictionary is built last, so a missing \<^verbatim>\<open>'address'\<close> entry is met before the subscripts
  on \<^verbatim>\<open>speed\<close>.
\<close>

definition location_of :: "geodata \<Rightarrow> location" where
  "location_of g =
     \<lparr>loc_latitiude = latitude g, loc_longitude = longitude g, loc_altitude = altitude g\<rparr>"

definition get_location ::
  "(real \<Rightarrow> real \<Rightarrow> geo_reply) \<Rightarrow> store \<Rightarrow> string \<Rightarrow> location_data response" where
  "get_location reverse s epoch =
     (if \<not> all_data s then Msg Data_deleted
      else
        case convert_j2k_to_geoposition (get_state_vector s epoch) of
          Raised e \<Rightarrow> Raised e
        | Msg m \<Rightarrow> Msg Invalid_Epoch_help
        | Ok g \<Rightarrow>
            (case reverse (latitude g) (longitude g) of
               Geo_raises \<Rightarrow> Raised GeocoderError
             | Location None \<Rightarrow> Raised KeyError
             | geoloc \<Rightarrow>
                 (let geo = (case geoloc of Location (Some a) \<Rightarrow> Address a | _ \<Rightarrow> Over_water) in
                  case get_speed s epoch of
                    Ok speed \<Rightarrow>
                      Ok \<lparr>ld_EPOCH = epoch, ld_location = location_of g, ld_geo = geo,
                          ld_speed = speed\<rparr>
                  | Msg m \<Rightarrow> Raised TypeError
                  | Raised e \<Rightarrow> Raised e)))"

subsection \<open>\<^verbatim>\<open>/now\<close>\<close>

text \<open>
  \<^verbatim>\<open>time.mktime(time.strptime(e[:-5], '%Y-%jT%H:%M:%S'))\<close> is a library computation on the
  epoch without its last five characters. The conversion is the parameter \<open>conv\<close>: it gives
  whole seconds, or \<open>None\<close> when \<^verbatim>\<open>strptime\<close> raises \<^verbatim>\<open>ValueError\<close>. The reference time
  \<^verbatim>\<open>time.mktime(time.gmtime())\<close> is the parameter \<open>time_now\<close>.
\<close>

definition epoch_time :: "(string \<Rightarrow> int option) \<Rightarrow> string \<Rightarrow> int option" where
  "epoch_time conv e = conv (take (length e - 5) e)"

text \<open>
  The local variables of the search. \<^verbatim>\<open>seconds_from_now\<close> is assigned only inside the
  loop's \<^verbatim>\<open>if\<close>, so it is \<open>None\<close> (unbound) until a record is strictly closer than the
  running best.
\<close>

record search =
  prev_diff :: int
  closest :: string
  secs :: "int option"

fun closest_loop ::
  "(string \<Rightarrow> int option) \<Rightarrow> int \<Rightarrow> state_vector list \<Rightarrow> search \<Rightarrow> search response" where
  "closest_loop conv time_now [] st = Ok st"
| "closest_loop conv time_now (i # rest) st =
     (case epoch_time conv (EPOCH i) of
        None \<Rightarrow> Raised ValueError
      | Some time_epoch \<Rightarrow>
          (let difference = \<bar>time_now - time_epoch\<bar> in
           if difference < prev_diff st
           then closest_loop conv time_now rest
                  \<lparr>prev_diff = difference, closest = EPOCH i, secs = Some (time_epoch - time_now)\<rparr>
           else closest_loop conv time_now rest st))"

definition find_closest ::
  "(string \<Rightarrow> int option) \<Rightarrow> int \<Rightarrow> state_vector list \<Rightarrow> search response" where
  "find_closest conv time_now svd =
     (case svd of
        [] \<Rightarrow> Raised IndexError
      | first # rest \<Rightarrow>
          (case epoch_time conv (EPOCH first) of
             None \<Rightarrow> Raised ValueError
           | Some time_first_epoch \<Rightarrow>
               closest_loop conv time_now svd
                 \<lparr>prev_diff = \<bar>time_now - time_first_epoch\<bar>, closest = EPOCH first,
                  secs = None\<rparr>))"

text \<open>
  In the result dictionary \<^verbatim>\<open>seconds_from_now\<close> is read before the subscripts on
  \<^verbatim>\<open>speed\<close>; reading it while unbound raises \<^verbatim>\<open>UnboundLocalError\<close>. When
  \<^verbatim>\<open>state_vector_data\<close> is a dictionary, \<^verbatim>\<open>state_vector_data[0]\<close> looks the key 0 up
  and raises \<^verbatim>\<open>KeyError\<close>.
\<close>

definition get_location_now ::
  "(string \<Rightarrow> int option) \<Rightarrow> (real \<Rightarrow> real \<Rightarrow> geo_reply) \<Rightarrow> int \<Rightarrow> store
     \<Rightarrow> location_now response" where
  "get_location_now conv reverse time_now s =
     (if \<not> all_data s then Msg Data_deleted
      else
        case state_vector_data s of
          Entry_dict d \<Rightarrow> Raised KeyError
        | Empty_dict \<Rightarrow> Raised KeyError
        | Entry_list entries \<Rightarrow>
        (case find_closest conv time_now entries of
          Raised e \<Rightarrow> Raised e
        | Msg m \<Rightarrow> Msg m
        | Ok st \<Rightarrow>
            (case convert_j2k_to_geoposition (get_state_vector s (closest st)) of
               Raised e \<Rightarrow> Raised e
             | Msg m \<Rightarrow> Msg Invalid_Epoch_help
             | Ok g \<Rightarrow>
                 (case reverse (latitude g) (longitude g) of
                    Geo_raises \<Rightarrow> Raised GeocoderError
                  | Location None \<Rightarrow> Raised KeyError
                  | geoloc \<Rightarrow>
                      (let geo = (case geoloc of Location (Some a) \<Rightarrow> Address a
                                  | _ \<Rightarrow> Over_water);
                           speed = get_speed s (closest st) in
                       case secs st of
                         None \<Rightarrow> Raised UnboundLocalError
                       | Some sfn \<Rightarrow>
                           (case speed of
                              Ok sp \<Rightarrow>
                                Ok \<lparr>closest_epoch = closest st, seconds_from_now = sfn,
                                    now_location = location_of g, now_geo = geo,
                                    now_speed = sp\<rparr>
                            | Msg m \<Rightarrow> Raised TypeError
                            | Raised e \<Rightarrow> Raised e))))))"

section \<open>A concrete clock for examples\<close>

text \<open>
  \<open>utc_seconds\<close> reads the fixed-width text \<^verbatim>\<open>YYYY-DDDTHH:MM:SS\<close> of the feed and gives
  the seconds since 1970 that \<^verbatim>\<open>time.mktime\<close> gives when the local time zone is UTC. It is
  used to instantiate \<open>conv\<close> at concrete inputs only.
\<close>

fun plain_digits :: "int \<Rightarrow> string \<Rightarrow> int option" where
  "plain_digits acc [] = Some acc"
| "plain_digits acc (c # cs) =
     (if is_digit c then plain_digits (acc * 10 + digit_val c) cs else None)"

definition leap_days_before :: "int \<Rightarrow> int" where
  "leap_days_before y = (y - 1) div 4 - (y - 1) div 100 + (y - 1) div 400"

definition days_before_year :: "int \<Rightarrow> int" where
  "days_before_year y = 365 * (y - 1970) + (leap_days_before y - leap_days_before 1970)"

definition utc_seconds :: "string \<Rightarrow> int option" where
  "utc_seconds t =
     (if length t = 17 \<and> t ! 4 = CHR ''-'' \<and> t ! 8 = CHR ''T'' \<and> t ! 11 = CHR '':''
         \<and> t ! 14 = CHR '':''
      then
        (case (plain_digits 0 (take 4 t), plain_digits 0 (take 3 (drop 5 t)),
               plain_digits 0 (take 2 (drop 9 t)), plain_digits 0 (take 2 (drop 12 t)),
               plain_digits 0 (take 2 (drop 15 t))) of
           (Some y, Some j, Some h, Some m, Some sec) \<Rightarrow>
             if 1 \<le> j \<and> j \<le> 366 \<and> h \<le> 23 \<and> m \<le> 59 \<and> sec \<le> 61
             then Some ((days_before_year y + (j - 1)) * 86400 + h * 3600 + m * 60 + sec)
             else None
         | _ \<Rightarrow> None)
      else None)"

text \<open>
  \<open>epoch_text\<close> writes an epoch in the feed's format \<^verbatim>\<open>YYYY-DDDTHH:MM:SS.sssZ\<close> from its
  components, each zero-padded to its width.
\<close>

definition digit_char :: "nat \<Rightarrow> char" where
  "digit_char d = char_of (48 + d mod 10)"

definition pad2 :: "nat \<Rightarrow> string" where
  "pad2 n = [digit_char (n div 10), digit_char n]"

definition pad3 :: "nat \<Rightarrow> string" where
  "pad3 n = [digit_char (n div 100), digit_char (n div 10), digit_char n]"

definition pad4 :: "nat \<Rightarrow> string" where
  "pad4 n = [digit_char (n div 1000), digit_char (n div 100), digit_char (n div 10), digit_char n]"

definition epoch_text :: "nat \<Rightarrow> nat \<Rightarrow> nat \<Rightarrow> nat \<Rightarrow> nat \<Rightarrow> nat \<Rightarrow> string" where
  "epoch_text year doy hour minute second milli =
     pad4 year @ ''-'' @ pad3 doy @ ''T'' @ pad2 hour @ '':'' @ pad2 minute @ '':''
       @ pad2 second @ ''.'' @ pad3 milli @ ''Z''"


section \<open>Sample data\<close>

text \<open>
  Three entries ten seconds before, two seconds after and a hundred seconds after the
  instant 2024-045T12:00:10 (second 1707912010 of the UTC clock), each at position
  \<open>(7000, 0, 0)\<close> with velocity \<open>(3, 4, 0)\<close>.
\<close>

definition sample_entry :: "string \<Rightarrow> state_vector" where
  "sample_entry e = \<lparr>EPOCH = e, X = 7000, Y = 0, Z = 0, X_DOT = 3, Y_DOT = 4, Z_DOT = 0\<rparr>"

definition sample_entries :: "state_vector list" where
  "sample_entries =
     [sample_entry ''2024-045T12:00:00.000Z'',
      sample_entry ''2024-045T12:00:12.000Z'',
      sample_entry ''2024-045T12:01:50.000Z'']"

definition sample_store :: store where
  "sample_store = \<lparr>all_data = True, state_vector_data = Entry_list sample_entries\<rparr>"

definition over_water :: "real \<Rightarrow> real \<Rightarrow> geo_reply" where
  "over_water lat lon = No_location"

section \<open>Auxiliary facts\<close>

subsection \<open>Reading digits\<close>


text \<open>Bytes 28 to 31 are not white space for \<^verbatim>\<open>int()\<close>: such a text is refused.\<close>

lemma py_int_separator_refused:
  "py_int [char_of (28::nat), CHR ''2''] = None" "py_int [CHR ''2'', char_of (31::nat)] = None"
  by (simp_all add: py_int_def strip_def is_space_def is_digit_def digit_val_def
      max_str_digits_def char_of_eq_iff)

text \<open>A text of more than 4300 digits is refused, whatever its digits are.\<close>

lemma py_int_too_long:
  assumes "4300 < length ds" and "\<forall>c\<in>set ds. is_digit c"
  shows "py_int ds = None"
proof -
  from assms(2) have nospace: "\<forall>c\<in>set ds. \<not> is_space c"
    by (auto simp add: is_digit_def is_space_def Let_def)
  from assms(1) obtain c cs where ds: "ds = c # cs" by (cases ds) auto
  from nospace ds have "dropWhile is_space ds = ds" by simp
  moreover from nospace have "dropWhile is_space (rev ds) = rev ds"
    by (cases "rev ds") (auto simp add: rev_swap [symmetric] dest: arg_cong [where f = set])
  ultimately have "strip ds = ds" by (simp add: strip_def)
  moreover from assms(2) have "filter is_digit ds = ds" by simp
  ultimately show ?thesis using assms(1) ds
    by (simp add: py_int_def max_str_digits_def)
qed

lemma of_char_digit_char: "(of_char (digit_char d) :: nat) = 48 + d mod 10"
proof -
  have "48 + d mod 10 < 256" by (simp add: less_le_trans [OF mod_less_divisor])
  then show ?thesis by (simp add: digit_char_def)
qed

lemma digit_char_props:
  "is_digit (digit_char d)" "\<not> is_space (digit_char d)"
  "digit_val (digit_char d) = int (d mod 10)"
  "digit_char d \<noteq> CHR ''+''" "digit_char d \<noteq> CHR ''-''"
proof -
  show "is_digit (digit_char d)" by (simp add: is_digit_def of_char_digit_char)
  show "\<not> is_space (digit_char d)" by (simp add: is_space_def of_char_digit_char)
  show "digit_val (digit_char d) = int (d mod 10)" by (simp add: digit_val_def of_char_digit_char)
  have "(of_char (digit_char d) :: nat) \<noteq> of_char CHR ''+''" by (simp add: of_char_digit_char)
  then show "digit_char d \<noteq> CHR ''+''" by auto
  have "(of_char (digit_char d) :: nat) \<noteq> of_char CHR ''-''" by (simp add: of_char_digit_char)
  then show "digit_char d \<noteq> CHR ''-''" by auto
qed

lemma py_int_pad2:
  assumes "n < 100"
  shows "py_int (pad2 n) = Some (int n)"
proof -
  have "strip (pad2 n) = pad2 n"
    by (simp add: strip_def pad2_def digit_char_props)
  moreover have "py_digits False 0 (pad2 n) = Some (int ((n div 10) mod 10) * 10 + int (n mod 10))"
    by (simp add: pad2_def digit_char_props)
  moreover from assms have "(n div 10) mod 10 = n div 10" by simp
  moreover have "int (n div 10) * 10 + int (n mod 10) = int n"
  proof -
    have "int (n div 10 * 10 + n mod 10) = int n" by simp
    then show ?thesis by (simp only: of_nat_add of_nat_mult of_nat_numeral)
  qed
  ultimately show ?thesis
    by (simp add: py_int_def pad2_def digit_char_props max_str_digits_def)
qed

lemma epoch_text_slices:
  "take 2 (drop 9 (epoch_text year doy hour minute second milli)) = pad2 hour"
  "take 2 (drop 12 (epoch_text year doy hour minute second milli)) = pad2 minute"
  by (simp_all add: epoch_text_def pad2_def pad3_def pad4_def)

subsection \<open>The transform on the feed's epoch format\<close>

lemma convert_epoch_text:
  assumes "hour < 100" "minute < 100"
  shows "convert_j2k_to_geoposition
        (Ok \<lparr>EPOCH = epoch_text year doy hour minute second milli,
             X = x, Y = y, Z = z, X_DOT = vx, Y_DOT = vy, Z_DOT = vz\<rparr>)
     = Ok \<lparr>latitude = degrees (atan2 z (sqrt (x\<^sup>2 + y\<^sup>2))),
           longitude = degrees (atan2 y x) - ((real hour - 12) + real minute / 60) * (360 / 24) + 24,
           altitude = \<lparr>val = sqrt (x\<^sup>2 + y\<^sup>2 + z\<^sup>2) - 6371, units = ''km''\<rparr>\<rparr>"
  using assms
  by (simp add: convert_j2k_to_geoposition_def epoch_text_slices py_int_pad2 MEAN_EARTH_RADIUS_def)

lemma epoch_text_sample:
  "epoch_text 2024 45 12 0 0 0 = ''2024-045T12:00:00.000Z''"
  "epoch_text 2024 45 0 0 0 0 = ''2024-045T00:00:00.000Z''"
  "epoch_text 2024 45 12 0 12 0 = ''2024-045T12:00:12.000Z''"
  "epoch_text 2024 45 12 1 50 0 = ''2024-045T12:01:50.000Z''"
  by (simp_all add: epoch_text_def pad2_def pad3_def pad4_def digit_char_def char_of_eq_iff)

lemma sqrt_7000: "sqrt (7000\<^sup>2) = (7000::real)"
  by simp

lemma position_7000:
  "atan2 0 (sqrt (7000\<^sup>2 + 0\<^sup>2)) = 0" "atan2 0 7000 = 0"
  "sqrt (7000\<^sup>2 + 0\<^sup>2 + 0\<^sup>2) = (7000::real)"
  by (simp_all add: atan2_def)

lemma convert_noon:
  "convert_j2k_to_geoposition
        (Ok \<lparr>EPOCH = epoch_text year doy 12 0 second milli,
             X = 7000, Y = 0, Z = 0, X_DOT = vx, Y_DOT = vy, Z_DOT = vz\<rparr>)
     = Ok \<lparr>latitude = 0, longitude = 24, altitude = \<lparr>val = 629, units = ''km''\<rparr>\<rparr>"
  by (simp add: convert_epoch_text position_7000 degrees_def)

lemma convert_midnight:
  "convert_j2k_to_geoposition
        (Ok \<lparr>EPOCH = epoch_text year doy 0 0 second milli,
             X = 7000, Y = 0, Z = 0, X_DOT = vx, Y_DOT = vy, Z_DOT = vz\<rparr>)
     = Ok \<lparr>latitude = 0, longitude = 204, altitude = \<lparr>val = 629, units = ''km''\<rparr>\<rparr>"
  by (simp add: convert_epoch_text position_7000 degrees_def)

subsection \<open>The scans over the entries\<close>


lemma state_vector_loop_first:
  "EPOCH r = e \<Longrightarrow> e \<notin> EPOCH ` set pre \<Longrightarrow> state_vector_loop (pre @ r # post) e = Ok r"
  by (induction pre) auto

lemma state_vector_loop_absent:
  "e \<notin> EPOCH ` set xs \<Longrightarrow> state_vector_loop xs e = Msg Epoch_not_found"
  by (induction xs) auto

lemma first_match_index:
  assumes "e \<in> EPOCH ` set xs"
  shows "\<exists>i<length xs. EPOCH (xs ! i) = e \<and> (\<forall>j<i. EPOCH (xs ! j) \<noteq> e)
            \<and> state_vector_loop xs e = Ok (xs ! i)"
proof -
  from assms have "\<exists>x\<in>set xs. EPOCH x = e" by auto
  then obtain pre r post where xs: "xs = pre @ r # post" and r: "EPOCH r = e"
    and pre: "\<forall>y\<in>set pre. EPOCH y \<noteq> e"
    using split_list_first_prop [of xs "\<lambda>x. EPOCH x = e"] by blast
  from pre have notin: "e \<notin> EPOCH ` set pre" by auto
  have "length pre < length xs" using xs by simp
  moreover have "EPOCH (xs ! length pre) = e" using xs r by simp
  moreover have "\<forall>j<length pre. EPOCH (xs ! j) \<noteq> e"
    using pre xs by (simp add: nth_append)
  moreover have "state_vector_loop xs e = Ok (xs ! length pre)"
    using state_vector_loop_first [OF r notin, of post] xs by simp
  ultimately show ?thesis by blast
qed

lemma speed_loop_first:
  "EPOCH r \<notin> EPOCH ` set pre \<Longrightarrow>
   speed_loop (pre @ r # post) (EPOCH r)
     = Ok \<lparr>speed_units = ''km/s'',
           speed_value = Str_of (sqrt ((X_DOT r)\<^sup>2 + (Y_DOT r)\<^sup>2 + (Z_DOT r)\<^sup>2))\<rparr>"
  by (induction pre) auto

subsection \<open>The search for the nearest epoch\<close>






lemma get_location_now_Ok:
  assumes "get_location_now conv reverse now s = Ok res"
  shows "\<exists>entries st. state_vector_data s = Entry_list entries
           \<and> find_closest conv now entries = Ok st
           \<and> closest_epoch res = closest st \<and> secs st = Some (seconds_from_now res)"
  using assms
  by (auto simp add: get_location_now_def Let_def
      split: if_splits response.splits geo_reply.splits option.splits sv_data.splits)

lemma sample_times:
  "epoch_time utc_seconds ''2024-045T12:00:00.000Z'' = Some 1707912000"
  "epoch_time utc_seconds ''2024-045T12:00:12.000Z'' = Some 1707912012"
  "epoch_time utc_seconds ''2024-045T12:01:50.000Z'' = Some 1707912110"
  by (simp_all add: epoch_time_def utc_seconds_def is_digit_def digit_val_def
      days_before_year_def leap_days_before_def)

subsection \<open>The sample data evaluated\<close>

lemma sample_speed: "sqrt (3\<^sup>2 + 4\<^sup>2 + 0\<^sup>2) = (5::real)"
  by (rule real_sqrt_unique) simp_all

lemma convert_sample:
  "convert_j2k_to_geoposition (Ok (sample_entry ''2024-045T12:00:00.000Z''))
     = Ok \<lparr>latitude = 0, longitude = 24, altitude = \<lparr>val = 629, units = ''km''\<rparr>\<rparr>"
  "convert_j2k_to_geoposition (Ok (sample_entry ''2024-045T12:00:12.000Z''))
     = Ok \<lparr>latitude = 0, longitude = 24, altitude = \<lparr>val = 629, units = ''km''\<rparr>\<rparr>"
  using convert_noon [of 2024 45 0 0 3 4 0] convert_noon [of 2024 45 12 0 3 4 0]
  by (simp_all add: epoch_text_sample sample_entry_def)

lemma sample_find_closest:
  "find_closest utc_seconds 1707912010 sample_entries
     = Ok \<lparr>prev_diff = 2, closest = ''2024-045T12:00:12.000Z'', secs = Some 2\<rparr>"
  "find_closest utc_seconds 1707912000 sample_entries
     = Ok \<lparr>prev_diff = 0, closest = ''2024-045T12:00:00.000Z'', secs = None\<rparr>"
  by (simp_all add: find_closest_def sample_entries_def sample_entry_def sample_times)

lemma sample_lookup:
  "get_state_vector sample_store ''2024-045T12:00:12.000Z''
     = Ok (sample_entry ''2024-045T12:00:12.000Z'')"
  "get_speed sample_store ''2024-045T12:00:12.000Z''
     = Ok \<lparr>speed_units = ''km/s'', speed_value = Str_of 5\<rparr>"
  "get_state_vector sample_store ''2024-045T12:00:00.000Z''
     = Ok (sample_entry ''2024-045T12:00:00.000Z'')"
  "get_speed sample_store ''2024-045T12:00:00.000Z''
     = Ok \<lparr>speed_units = ''km/s'', speed_value = Str_of 5\<rparr>"
  by (simp_all add: get_state_vector_def get_speed_def sample_store_def sample_entries_def
      sample_entry_def sample_speed)


lemma sample_now_at_first_epoch:
  "get_location_now utc_seconds over_water 1707912000 sample_store = Raised UnboundLocalError"
proof -
  have "all_data sample_store" "state_vector_data sample_store = Entry_list sample_entries"
    by (simp_all add: sample_store_def)
  then show ?thesis
    by (simp add: get_location_now_def sample_find_closest sample_lookup convert_sample
        over_water_def location_of_def)
qed

lemma closest_loop_never_updates:
  "\<forall>x\<in>set xs. \<forall>tx. epoch_time conv (EPOCH x) = Some tx \<longrightarrow> prev_diff st \<le> \<bar>now - tx\<bar>
   \<Longrightarrow> closest_loop conv now xs st = Ok st' \<Longrightarrow> st' = st"
  by (induction xs) (auto split: option.splits)

subsection \<open>The angle functions\<close>

text \<open>
  \<open>atan2\<close> is the angle of polar coordinates, in \<open>(-pi, pi]\<close>, and \<open>degrees\<close> turns
  half a turn into 180.
\<close>

lemma degrees_values: "degrees 0 = 0" "degrees pi = 180" "degrees (pi / 2) = 90"
  by (simp_all add: degrees_def)

lemma atan2_values:
  "atan2 0 1 = 0" "atan2 1 1 = pi / 4" "atan2 1 0 = pi / 2" "atan2 0 (- 1) = pi"
  "atan2 (- 1) 0 = - (pi / 2)" "atan2 (- 1) (- 1) = - (3 * pi / 4)"
  by (simp_all add: atan2_def arctan_one)

lemma atan2_polar:
  assumes r: "0 < r" and lo: "- pi < a" and hi: "a \<le> pi"
  shows "atan2 (r * sin a) (r * cos a) = a"
proof -
  have quot: "r * sin a / (r * cos a) = tan a"
    using r by (simp add: tan_def)
  consider (mid) "- (pi / 2) < a" "a < pi / 2" | (top) "a = pi / 2" | (bot) "a = - (pi / 2)"
    | (left_up) "pi / 2 < a" | (left_down) "a < - (pi / 2)"
    by linarith
  then show ?thesis
  proof cases
    case mid
    then have "0 < cos a" by (simp add: cos_gt_zero_pi)
    with r have "0 < r * cos a" by simp
    then have "atan2 (r * sin a) (r * cos a) = arctan (r * sin a / (r * cos a))"
      by (simp add: atan2_def)
    then have "atan2 (r * sin a) (r * cos a) = arctan (tan a)"
      by (simp only: quot)
    with mid show ?thesis by (simp add: arctan_tan)
  next
    case top
    show ?thesis unfolding top using r by (simp add: atan2_def)
  next
    case bot
    show ?thesis unfolding bot using r by (simp add: atan2_def)
  next
    case left_up
    let ?b = "a - pi"
    have b: "- (pi / 2) < ?b" "?b < pi / 2" using left_up hi by simp_all
    from b have "0 < cos ?b" by (rule cos_gt_zero_pi)
    moreover have "cos ?b = - cos a" by simp
    ultimately have "cos a < 0" by simp
    with r have x: "r * cos a < 0" by (simp add: mult_pos_neg)
    have "0 \<le> sin a" using left_up hi pi_gt_zero by (intro sin_ge_zero) simp_all
    with r have y: "0 \<le> r * sin a" by simp
    have "tan ?b = tan a" using tan_periodic_pi [of ?b] by simp
    moreover from b have "arctan (tan ?b) = ?b" by (rule arctan_tan)
    ultimately have at: "arctan (tan a) = ?b" by simp
    from x y have "atan2 (r * sin a) (r * cos a) = arctan (r * sin a / (r * cos a)) + pi"
      by (simp add: atan2_def)
    then have "atan2 (r * sin a) (r * cos a) = arctan (tan a) + pi"
      by (simp only: quot)
    with at show ?thesis by simp
  next
    case left_down
    let ?b = "a + pi"
    have b: "0 < ?b" "?b < pi / 2" using left_down lo by simp_all
    then have "- (pi / 2) < ?b" by simp
    from this b(2) have "0 < cos ?b" by (rule cos_gt_zero_pi)
    moreover have "cos ?b = - cos a" by (rule cos_periodic_pi)
    ultimately have "cos a < 0" by simp
    with r have x: "r * cos a < 0" by (simp add: mult_pos_neg)
    from b pi_gt_zero have "?b < pi" by simp
    from b(1) this have "0 < sin ?b" by (rule sin_gt_zero)
    moreover have "sin ?b = - sin a" by (rule sin_periodic_pi)
    ultimately have "sin a < 0" by simp
    with r have y: "r * sin a < 0" by (simp add: mult_pos_neg)
    have "tan ?b = tan a" by (rule tan_periodic_pi)
    moreover from \<open>- (pi / 2) < ?b\<close> b(2) have "arctan (tan ?b) = ?b" by (rule arctan_tan)
    ultimately have at: "arctan (tan a) = ?b" by simp
    from x y have "atan2 (r * sin a) (r * cos a) = arctan (r * sin a / (r * cos a)) - pi"
      by (simp add: atan2_def)
    then have "atan2 (r * sin a) (r * cos a) = arctan (tan a) - pi"
      by (simp only: quot)
    with at show ?thesis by simp
  qed
qed

subsection \<open>Query arguments and loading\<close>


lemma load_two_or_more:
  assumes "2 \<le> length entries"
  shows "retrieve_data_again (Document entries) s
           = (Ok (), \<lparr>all_data = True, state_vector_data = Entry_list entries\<rparr>)"
proof -
  from assms obtain a b rest where "entries = a # b # rest"
    by (cases entries; cases "tl entries") auto
  then show ?thesis by (simp add: retrieve_data_again_def)
qed

lemma load_one:
  "retrieve_data_again (Document [d]) s
     = (Ok (), \<lparr>all_data = True, state_vector_data = Entry_dict d\<rparr>)"
  by (simp add: retrieve_data_again_def)

lemma load_none:
  "retrieve_data_again (Document []) s = (Raised KeyError, s\<lparr>all_data := True\<rparr>)"
  by (simp add: retrieve_data_again_def)

section \<open>The claims\<close>

subsection \<open>Listing epochs\<close>






subsection \<open>The emptied store\<close>

text \<open>
  Claim C7, amended. The empty state the routes test for is an empty \<^verbatim>\<open>all_data\<close>,
  which is what \<^verbatim>\<open>delete_all_data\<close> leaves. Every query on such a store (the epoch list,
  the state vector, the speed, the location and the location nearest to now) returns the
  data-deleted message: none raises and none returns data.
\<close>

theorem empty_store_no_data:
  "(\<not> all_data s \<longrightarrow>
       get_list_of_epochs s limit_arg offset_arg = Msg Data_deleted
     \<and> get_state_vector s epoch = Msg Data_deleted
     \<and> get_speed s epoch = Msg Data_deleted
     \<and> get_location reverse s epoch = Msg Data_deleted
     \<and> get_location_now conv reverse time_now s = Msg Data_deleted)
   \<and> \<not> all_data (delete_all_data s0)"
  by (simp add: get_list_of_epochs_def get_state_vector_def get_speed_def get_location_def
      get_location_now_def delete_all_data_def)

theorem empty_store_no_data_witness:
  "\<not> all_data (delete_all_data sample_store)
   \<and> get_list_of_epochs (delete_all_data sample_store) (Some ''2'') None = Msg Data_deleted
   \<and> get_state_vector (delete_all_data sample_store) ''2024-045T12:00:12.000Z'' = Msg Data_deleted
   \<and> get_speed (delete_all_data sample_store) ''2024-045T12:00:12.000Z'' = Msg Data_deleted
   \<and> get_location over_water (delete_all_data sample_store) ''2024-045T12:00:12.000Z''
       = Msg Data_deleted
   \<and> get_location_now utc_seconds over_water 1707912010 (delete_all_data sample_store)
       = Msg Data_deleted"
  using empty_store_no_data [of "delete_all_data sample_store" "Some ''2''" None
      "''2024-045T12:00:12.000Z''" over_water utc_seconds 1707912010 sample_store]
  by simp

text \<open>
  The store with no entries and a non-empty \<^verbatim>\<open>all_data\<close>, as it stands after
  \<^verbatim>\<open>delete_all_data\<close> and a reload whose document has no \<^verbatim>\<open>stateVector\<close>: no route
  answers with the data-deleted message, and the nearest-to-now route raises.
\<close>

theorem empty_store_no_data_counterexample:
  "snd (retrieve_data_again (Document []) (delete_all_data sample_store))
     = \<lparr>all_data = True, state_vector_data = Empty_dict\<rparr>
   \<and> data_len (state_vector_data \<lparr>all_data = True, state_vector_data = Empty_dict\<rparr>) = 0
   \<and> get_list_of_epochs \<lparr>all_data = True, state_vector_data = Empty_dict\<rparr> None None
       = Msg (Offset_out_of_range 0)
   \<and> get_list_of_epochs \<lparr>all_data = True, state_vector_data = Empty_dict\<rparr> None None
       \<noteq> Msg Data_deleted
   \<and> get_state_vector \<lparr>all_data = True, state_vector_data = Empty_dict\<rparr>
        ''2024-045T12:00:12.000Z'' = Msg Epoch_not_found
   \<and> get_speed \<lparr>all_data = True, state_vector_data = Empty_dict\<rparr>
        ''2024-045T12:00:12.000Z'' = Msg Epoch_not_found_speed
   \<and> get_location over_water \<lparr>all_data = True, state_vector_data = Empty_dict\<rparr>
        ''2024-045T12:00:12.000Z'' = Msg Invalid_Epoch_help
   \<and> get_location_now utc_seconds over_water 1707912010
        \<lparr>all_data = True, state_vector_data = Empty_dict\<rparr> = Raised KeyError"
  by (simp add: retrieve_data_again_def delete_all_data_def get_list_of_epochs_def
      get_state_vector_def get_speed_def get_location_def get_location_now_def int_arg_def
      convert_j2k_to_geoposition_def)

subsection \<open>Looking an epoch up\<close>

text \<open>
  Claim C8 fails on the code after a one-entry load. On a store that holds a list of
  entries \<^verbatim>\<open>get_state_vector\<close> returns, for an epoch that some entry carries, the first
  entry in order whose \<^verbatim>\<open>EPOCH\<close> equals it as a string, and for an epoch no entry carries
  the epoch-not-found message; after \<^verbatim>\<open>retrieve_data_again\<close> has loaded a document with
  two or more entries in which \<open>r\<close> is the first with its epoch, looking that epoch up
  returns \<open>r\<close>. After a load of the one-entry document \<open>[r]\<close> the variable holds \<open>r\<close>'s
  dictionary, not a list, and looking \<open>r\<close>'s epoch up raises \<^verbatim>\<open>TypeError\<close>.
\<close>

theorem find_by_epoch_first_match:
  assumes "all_data s" and "state_vector_data s = Entry_list entries"
  shows "(e \<in> EPOCH ` set entries \<longrightarrow>
            (\<exists>i<length entries.
                EPOCH (entries ! i) = e
              \<and> (\<forall>j<i. EPOCH (entries ! j) \<noteq> e)
              \<and> get_state_vector s e = Ok (entries ! i)))
       \<and> (e \<notin> EPOCH ` set entries \<longrightarrow> get_state_vector s e = Msg Epoch_not_found)
       \<and> (EPOCH r \<notin> EPOCH ` set pre \<and> pre @ post \<noteq> [] \<longrightarrow>
            get_state_vector (snd (retrieve_data_again (Document (pre @ r # post)) s0)) (EPOCH r)
              = Ok r)
       \<and> get_state_vector (snd (retrieve_data_again (Document [r]) s0)) (EPOCH r)
           = Raised TypeError"
proof -
  have scan: "get_state_vector s e = state_vector_loop entries e" for e
    using assms by (simp add: get_state_vector_def)
  have found: "e \<in> EPOCH ` set entries \<longrightarrow>
            (\<exists>i<length entries.
                EPOCH (entries ! i) = e
              \<and> (\<forall>j<i. EPOCH (entries ! j) \<noteq> e)
              \<and> get_state_vector s e = Ok (entries ! i))"
    using first_match_index [of e entries] by (simp add: scan)
  have absent: "e \<notin> EPOCH ` set entries \<longrightarrow> get_state_vector s e = Msg Epoch_not_found"
    using state_vector_loop_absent [of e entries] by (simp add: scan)
  have loaded: "EPOCH r \<notin> EPOCH ` set pre \<and> pre @ post \<noteq> [] \<longrightarrow>
      get_state_vector (snd (retrieve_data_again (Document (pre @ r # post)) s0)) (EPOCH r) = Ok r"
  proof
    assume a: "EPOCH r \<notin> EPOCH ` set pre \<and> pre @ post \<noteq> []"
    then have "2 \<le> length (pre @ r # post)" by (cases pre; cases post) simp_all
    from load_two_or_more [OF this, of s0]
    have "get_state_vector (snd (retrieve_data_again (Document (pre @ r # post)) s0)) (EPOCH r)
        = state_vector_loop (pre @ r # post) (EPOCH r)"
      by (simp add: get_state_vector_def)
    also have "\<dots> = Ok r" using a state_vector_loop_first [of r "EPOCH r" pre post] by simp
    finally show "get_state_vector (snd (retrieve_data_again (Document (pre @ r # post)) s0))
        (EPOCH r) = Ok r" .
  qed
  have single: "get_state_vector (snd (retrieve_data_again (Document [r]) s0)) (EPOCH r)
      = Raised TypeError"
    by (simp add: load_one get_state_vector_def)
  from found absent loaded single show ?thesis by blast
qed

theorem find_by_epoch_first_match_witness:
  "all_data sample_store \<and> state_vector_data sample_store = Entry_list sample_entries
   \<and> get_state_vector sample_store ''2024-045T12:00:12.000Z''
       = Ok (sample_entry ''2024-045T12:00:12.000Z'')
   \<and> get_state_vector
        (snd (retrieve_data_again
           (Document
             [sample_entry ''2024-045T12:00:00.000Z'',
              \<lparr>EPOCH = ''2024-045T12:04:00.000Z'', X = 1, Y = 2, Z = 3,
                X_DOT = 4, Y_DOT = 5, Z_DOT = 6\<rparr>,
              \<lparr>EPOCH = ''2024-045T12:04:00.000Z'', X = 7, Y = 8, Z = 9,
                X_DOT = 10, Y_DOT = 11, Z_DOT = 12\<rparr>])
           (delete_all_data sample_store)))
        ''2024-045T12:04:00.000Z''
       = Ok \<lparr>EPOCH = ''2024-045T12:04:00.000Z'', X = 1, Y = 2, Z = 3,
              X_DOT = 4, Y_DOT = 5, Z_DOT = 6\<rparr>
   \<and> get_state_vector sample_store ''2024-045T12:00:13.000Z'' = Msg Epoch_not_found
   \<and> get_state_vector
        (snd (retrieve_data_again (Document [sample_entry ''2024-045T12:00:12.000Z''])
           (delete_all_data sample_store)))
        ''2024-045T12:00:12.000Z''
       = Raised TypeError"
proof -
  have s: "all_data sample_store" "state_vector_data sample_store = Entry_list sample_entries"
    by (simp_all add: sample_store_def)
  show ?thesis
    using find_by_epoch_first_match [OF s, of "''2024-045T12:00:12.000Z''"
        "sample_entry ''2024-045T12:00:12.000Z''" "[]" "[]" "delete_all_data sample_store"]
      find_by_epoch_first_match [OF s, of "''2024-045T12:00:13.000Z''"
        "\<lparr>EPOCH = ''2024-045T12:04:00.000Z'', X = 1, Y = 2, Z = 3,
              X_DOT = 4, Y_DOT = 5, Z_DOT = 6\<rparr>"
        "[sample_entry ''2024-045T12:00:00.000Z'']"
        "[\<lparr>EPOCH = ''2024-045T12:04:00.000Z'', X = 7, Y = 8, Z = 9,
              X_DOT = 10, Y_DOT = 11, Z_DOT = 12\<rparr>]" "delete_all_data sample_store"]
      s
    by (simp add: sample_store_def sample_entries_def sample_entry_def get_state_vector_def)
qed

subsection \<open>The entry nearest to now\<close>

text \<open>
  Claim C1 fails on the code. \<^verbatim>\<open>seconds_from_now\<close> is assigned only when an entry is
  strictly closer than the running best, and the running best starts at the first entry.
  When the store holds a list of entries and none is strictly closer to the reference
  time than the first one, the variable is still unbound where the result dictionary
  reads it, so \<^verbatim>\<open>get_location_now\<close> never returns a result on such a store, whatever the
  clock and the geocoder do.
\<close>

theorem nearest_first_entry_never_returns:
  assumes first: "state_vector_data s = Entry_list (first # rest)"
    and t0: "epoch_time conv (EPOCH first) = Some t0"
    and nearest: "\<forall>x\<in>set rest. \<forall>tx. epoch_time conv (EPOCH x) = Some tx
                    \<longrightarrow> \<bar>now - t0\<bar> \<le> \<bar>now - tx\<bar>"
  shows "\<forall>res. get_location_now conv reverse now s \<noteq> Ok res"
proof (intro allI notI)
  fix res
  assume "get_location_now conv reverse now s = Ok res"
  then obtain entries st where "state_vector_data s = Entry_list entries"
    and "find_closest conv now entries = Ok st"
    and bound: "secs st = Some (seconds_from_now res)"
    using get_location_now_Ok by blast
  with first have st: "find_closest conv now (first # rest) = Ok st" by simp
  let ?st0 = "\<lparr>prev_diff = \<bar>now - t0\<bar>, closest = EPOCH first, secs = None\<rparr>"
  from st t0 have run: "closest_loop conv now (first # rest) ?st0 = Ok st"
    by (simp add: find_closest_def)
  have "\<forall>x\<in>set (first # rest). \<forall>tx. epoch_time conv (EPOCH x) = Some tx
           \<longrightarrow> prev_diff ?st0 \<le> \<bar>now - tx\<bar>"
    using t0 nearest by simp
  from closest_loop_never_updates [OF this run] have "secs st = None" by simp
  with bound show False by simp
qed

theorem nearest_first_entry_never_returns_witness:
  "state_vector_data sample_store
     = Entry_list
         (sample_entry ''2024-045T12:00:00.000Z''
          # [sample_entry ''2024-045T12:00:12.000Z'', sample_entry ''2024-045T12:01:50.000Z''])
   \<and> epoch_time utc_seconds ''2024-045T12:00:00.000Z'' = Some 1707912000
   \<and> (\<forall>res. get_location_now utc_seconds over_water 1707912000 sample_store \<noteq> Ok res)
   \<and> get_location_now utc_seconds over_water 1707912000 sample_store
       = Raised UnboundLocalError"
proof -
  have data: "state_vector_data sample_store
     = Entry_list
         (sample_entry ''2024-045T12:00:00.000Z''
          # [sample_entry ''2024-045T12:00:12.000Z'', sample_entry ''2024-045T12:01:50.000Z''])"
    by (simp add: sample_store_def sample_entries_def)
  have t: "epoch_time utc_seconds (EPOCH (sample_entry ''2024-045T12:00:00.000Z''))
      = Some 1707912000"
    by (simp add: sample_entry_def sample_times)
  show ?thesis
    using nearest_first_entry_never_returns [OF data t, of 1707912000 over_water]
      data sample_now_at_first_epoch
    by (simp add: sample_times)
qed



subsection \<open>The coordinate transform\<close>

text \<open>
  Claim C4, amended. For an entry at position \<open>(7000, 0, 0)\<close> whose epoch has hour 12 and
  minute 0, \<^verbatim>\<open>convert_j2k_to_geoposition\<close> gives latitude 0, altitude 629 km and
  longitude 24, not 0: the longitude formula ends in \<open>+ 24\<close>.
\<close>

theorem noon_position:
  "convert_j2k_to_geoposition
        (Ok \<lparr>EPOCH = epoch_text year doy 12 0 second milli,
             X = 7000, Y = 0, Z = 0, X_DOT = vx, Y_DOT = vy, Z_DOT = vz\<rparr>)
     = Ok \<lparr>latitude = 0, longitude = 24, altitude = \<lparr>val = 629, units = ''km''\<rparr>\<rparr>"
  by (simp add: convert_epoch_text position_7000 degrees_def)

theorem noon_position_counterexample:
  "convert_j2k_to_geoposition
        (Ok \<lparr>EPOCH = ''2024-045T12:00:00.000Z'',
             X = 7000, Y = 0, Z = 0, X_DOT = 3, Y_DOT = 4, Z_DOT = 0\<rparr>)
     \<noteq> Ok \<lparr>latitude = 0, longitude = 0, altitude = \<lparr>val = 629, units = ''km''\<rparr>\<rparr>"
  using convert_noon [of 2024 45 0 0 3 4 0]
  by (simp add: epoch_text_sample)

text \<open>
  Claim C9. The longitude is not brought into a principal range: the entry at position
  \<open>(7000, 0, 0)\<close> with epoch hour 0 and minute 0 gets longitude
  \<open>0 - (-12) * 15 + 24 = 204\<close>, outside \<open>[-180, 180]\<close>.
\<close>

theorem longitude_not_normalised:
  "\<exists>g. convert_j2k_to_geoposition
          (Ok \<lparr>EPOCH = ''2024-045T00:00:00.000Z'',
               X = 7000, Y = 0, Z = 0, X_DOT = 3, Y_DOT = 4, Z_DOT = 0\<rparr>) = Ok g
      \<and> longitude g = 204
      \<and> \<not> (- 180 \<le> longitude g \<and> longitude g \<le> 180)"
  using convert_midnight [of 2024 45 0 0 3 4 0]
  by (simp add: epoch_text_sample)

end
